theory Spec2Isabelle
  imports Main "HOL-Library.AList"
begin

section \<open>Values, model instances, requests and responses\<close>

text \<open>
  JSON-like Python values: what \<^verbatim>\<open>request.data\<close> holds and what a serializer's
  \<^verbatim>\<open>.data\<close> is. A Python dict is an association list (insertion order kept).
\<close>

datatype pyval =
    PNone
  | PBool bool
  | PInt int
  | PStr string
  | PList "pyval list"
  | PDict "(string \<times> pyval) list"

type_synonym pydict = "(string \<times> pyval) list"

text \<open>\<^verbatim>\<open>k in d\<close>, \<^verbatim>\<open>d.get(k)\<close>, \<^verbatim>\<open>d.get(k, default)\<close> and \<^verbatim>\<open>d[k] = v\<close>.\<close>

definition contains :: "pydict \<Rightarrow> string \<Rightarrow> bool" where
  "contains d k = (map_of d k \<noteq> None)"

definition get_default :: "pydict \<Rightarrow> string \<Rightarrow> pyval \<Rightarrow> pyval" where
  "get_default d k dflt = (case map_of d k of None \<Rightarrow> dflt | Some v \<Rightarrow> v)"

definition get :: "pydict \<Rightarrow> string \<Rightarrow> pyval" where
  "get d k = get_default d k PNone"

definition setitem :: "pydict \<Rightarrow> string \<Rightarrow> pyval \<Rightarrow> pydict" where
  "setitem d k v = AList.update k v d"

text \<open>
  The host framework's user model (\<^verbatim>\<open>get_user_model()\<close>): the three attributes the
  repository names, and \<open>password\<close> standing for the attributes it never exposes.
\<close>

record user =
  pk :: int
  username :: string
  email :: string
  password :: string

text \<open>Django compares model instances of one model by primary key.\<close>

definition user_eq :: "user \<Rightarrow> user \<Rightarrow> bool" where
  "user_eq a b = (pk a = pk b)"

text \<open>
  The external library's \<^verbatim>\<open>FriendshipRequest\<close>; the views read \<^verbatim>\<open>to_user\<close> only.
\<close>

record friendship_request =
  request_pk :: int
  from_user :: user
  to_user :: user
  message :: pyval

record request =
  user :: user
  data :: pydict

datatype response = Response (response_data: pyval) (status_code: nat)

abbreviation HTTP_200_OK :: nat where "HTTP_200_OK \<equiv> 200"
abbreviation HTTP_201_CREATED :: nat where "HTTP_201_CREATED \<equiv> 201"
abbreviation HTTP_204_NO_CONTENT :: nat where "HTTP_204_NO_CONTENT \<equiv> 204"
abbreviation HTTP_400_BAD_REQUEST :: nat where "HTTP_400_BAD_REQUEST \<equiv> 400"

text \<open>
  Exceptions. The two classes of \<^verbatim>\<open>friendship.exceptions\<close> carry their message
  (\<^verbatim>\<open>str(e)\<close>), as does the \<open>Http404\<close> that \<^verbatim>\<open>get_object_or_404\<close> raises; every other
  class is \<open>OtherError\<close> with its class name and message.
\<close>

datatype exn =
    AlreadyExistsError string
  | AlreadyFriendsError string
  | Http404 string
  | OtherError string string

section \<open>The serializer layer (serializers.py)\<close>

type_synonym 'a serializer = "'a \<Rightarrow> exn + pyval"

text \<open>
  A \<^verbatim>\<open>ModelSerializer\<close> with \<^verbatim>\<open>Meta.fields\<close>: one entry per listed field, in the
  listed order, holding the instance's attribute; a name that is no attribute of the
  model is a configuration error.
\<close>

fun to_representation :: "('a \<Rightarrow> string \<Rightarrow> pyval option) \<Rightarrow> string list \<Rightarrow> 'a \<Rightarrow> exn + pydict" where
  "to_representation getattr [] instance = Inr []"
| "to_representation getattr (f # fs) instance =
     (case getattr instance f of
        None \<Rightarrow> Inl (OtherError ''ImproperlyConfigured'' f)
      | Some v \<Rightarrow>
          (case to_representation getattr fs instance of
             Inl e \<Rightarrow> Inl e
           | Inr d \<Rightarrow> Inr ((f, v) # d)))"

definition ModelSerializer :: "('a \<Rightarrow> string \<Rightarrow> pyval option) \<Rightarrow> string list \<Rightarrow> 'a serializer" where
  "ModelSerializer getattr Meta_fields instance =
     (case to_representation getattr Meta_fields instance of
        Inl e \<Rightarrow> Inl e
      | Inr d \<Rightarrow> Inr (PDict d))"

definition user_getattr :: "user \<Rightarrow> string \<Rightarrow> pyval option" where
  "user_getattr u f =
     (if f = ''pk'' \<or> f = ''id'' then Some (PInt (pk u))
      else if f = ''username'' then Some (PStr (username u))
      else if f = ''email'' then Some (PStr (email u))
      else if f = ''password'' then Some (PStr (password u))
      else None)"

text \<open>\<^verbatim>\<open>class UserSerializer: Meta: fields = ('pk', 'username', 'email')\<close>\<close>

definition UserSerializer_fields :: "string list" where
  "UserSerializer_fields = [''pk'', ''username'', ''email'']"

definition UserSerializer :: "user serializer" where
  "UserSerializer = ModelSerializer user_getattr UserSerializer_fields"

text \<open>
  Modelled from the spec: \<^verbatim>\<open>FriendSerializer\<close>, the user serializer that views.py
  imports from the serializers module and uses when the settings name no other; this
  revision of serializers.py does not define it. The spec gives the serializer layer's
  field set for a user as pk, username, email.
\<close>

definition FriendSerializer :: "user serializer" where
  "FriendSerializer = ModelSerializer user_getattr [''pk'', ''username'', ''email'']"

text \<open>\<^verbatim>\<open>serializer(xs, many=True).data\<close>: each item in turn, the first failure raised.\<close>

fun serialize_many :: "'a serializer \<Rightarrow> 'a list \<Rightarrow> exn + pyval list" where
  "serialize_many ser [] = Inr []"
| "serialize_many ser (x # xs) =
     (case ser x of
        Inl e \<Rightarrow> Inl e
      | Inr d \<Rightarrow>
          (case serialize_many ser xs of
             Inl e \<Rightarrow> Inl e
           | Inr ds \<Rightarrow> Inr (d # ds)))"

definition many :: "'a serializer \<Rightarrow> 'a list \<Rightarrow> exn + pyval" where
  "many ser xs = (case serialize_many ser xs of Inl e \<Rightarrow> Inl e | Inr ds \<Rightarrow> Inr (PList ds))"

section \<open>Module level of views.py: settings and class attributes\<close>

text \<open>
  \<^verbatim>\<open>settings.REST_FRIENDSHIP\<close>: a dict with the key \<^verbatim>\<open>PERMISSION_CLASSES\<close> (a list of
  import paths) and the optional keys \<^verbatim>\<open>USER_SERIALIZER\<close> and
  \<^verbatim>\<open>FRIENDSHIPREQUEST_SERIALIZER\<close> (one import path each). \<open>None\<close> is an absent key.
\<close>

record rest_friendship =
  key_PERMISSION_CLASSES :: "string list option"
  key_USER_SERIALIZER :: "string option"
  key_FRIENDSHIPREQUEST_SERIALIZER :: "string option"

type_synonym permission = "request \<Rightarrow> bool"

text \<open>
  Django's \<^verbatim>\<open>import_string\<close> is a parameter, at the type each of its three uses needs.
\<close>

record importer =
  import_permission :: "string \<Rightarrow> exn + permission"
  import_user_serializer :: "string \<Rightarrow> exn + user serializer"
  import_request_serializer :: "string \<Rightarrow> exn + friendship_request serializer"

text \<open>
  views.py also imports \<^verbatim>\<open>FriendshipRequestSerializer\<close> from the serializers module,
  which does not define it in this revision: it is a parameter.
\<close>

record serializers_module =
  FriendshipRequestSerializer :: "friendship_request serializer"

record viewset_class =
  permission_classes :: "permission list"
  serializer_class :: "user serializer"
  friendshiprequest_serializer_class :: "friendship_request serializer"
  lookup_field :: string

text \<open>\<^verbatim>\<open>[import_string(c) for c in paths]\<close>\<close>

fun import_all :: "(string \<Rightarrow> exn + 'a) \<Rightarrow> string list \<Rightarrow> exn + 'a list" where
  "import_all imp [] = Inr []"
| "import_all imp (c # cs) =
     (case imp c of
        Inl e \<Rightarrow> Inl e
      | Inr x \<Rightarrow>
          (case import_all imp cs of
             Inl e \<Rightarrow> Inl e
           | Inr xs \<Rightarrow> Inr (x # xs)))"

text \<open>
  Lines 17 to 32: the module-level constants and the class attributes built from them.
  A missing \<^verbatim>\<open>REST_FRIENDSHIP\<close> setting makes the subscript raise \<^verbatim>\<open>TypeError\<close>, a
  missing \<^verbatim>\<open>PERMISSION_CLASSES\<close> key \<^verbatim>\<open>KeyError\<close>.
\<close>

definition FriendViewSet ::
  "rest_friendship option \<Rightarrow> importer \<Rightarrow> serializers_module \<Rightarrow> exn + viewset_class" where
  "FriendViewSet REST_FRIENDSHIP imp sers =
     (case REST_FRIENDSHIP of
        None \<Rightarrow> Inl (OtherError ''TypeError'' ''NoneType object is not subscriptable'')
      | Some rf \<Rightarrow>
          (case key_PERMISSION_CLASSES rf of
             None \<Rightarrow> Inl (OtherError ''KeyError'' ''PERMISSION_CLASSES'')
           | Some paths \<Rightarrow>
               (case import_all (import_permission imp) paths of
                  Inl e \<Rightarrow> Inl e
                | Inr PERMISSION_CLASSES \<Rightarrow>
                    (case (case key_USER_SERIALIZER rf of
                             Some p \<Rightarrow> import_user_serializer imp p
                           | None \<Rightarrow> Inr FriendSerializer) of
                       Inl e \<Rightarrow> Inl e
                     | Inr USER_SERIALIZER \<Rightarrow>
                         (case (case key_FRIENDSHIPREQUEST_SERIALIZER rf of
                                  Some p \<Rightarrow> import_request_serializer imp p
                                | None \<Rightarrow> Inr (FriendshipRequestSerializer sers)) of
                            Inl e \<Rightarrow> Inl e
                          | Inr FRIENDSHIPREQUEST_SERIALIZER \<Rightarrow>
                              Inr \<lparr> permission_classes = PERMISSION_CLASSES,
                                    serializer_class = USER_SERIALIZER,
                                    friendshiprequest_serializer_class = FRIENDSHIPREQUEST_SERIALIZER,
                                    lookup_field = ''pk'' \<rparr>)))))"

section \<open>The external library and the ORM\<close>

text \<open>
  The friendship library and the ORM are not part of the repository: every function
  of theirs that views.py calls is a parameter. A query reads the database and returns
  or raises; \<^verbatim>\<open>add_friend\<close>, \<^verbatim>\<open>remove_friend\<close>, \<^verbatim>\<open>accept\<close> and \<^verbatim>\<open>reject\<close> may also
  change it.
\<close>

record 'db backend =
  Friend_friends :: "'db \<Rightarrow> user \<Rightarrow> exn + user list"
  Friend_are_friends :: "'db \<Rightarrow> user \<Rightarrow> user \<Rightarrow> exn + bool"
  Friend_unrejected_requests :: "'db \<Rightarrow> user \<Rightarrow> exn + friendship_request list"
  Friend_sent_requests :: "'db \<Rightarrow> user \<Rightarrow> exn + friendship_request list"
  Friend_rejected_requests :: "'db \<Rightarrow> user \<Rightarrow> exn + friendship_request list"
  Friend_add_friend :: "'db \<Rightarrow> user \<Rightarrow> user \<Rightarrow> pyval \<Rightarrow> (exn + friendship_request) \<times> 'db"
  Friend_remove_friend :: "'db \<Rightarrow> user \<Rightarrow> user \<Rightarrow> (exn + bool) \<times> 'db"
  FriendshipRequest_accept :: "'db \<Rightarrow> friendship_request \<Rightarrow> (exn + unit) \<times> 'db"
  FriendshipRequest_reject :: "'db \<Rightarrow> friendship_request \<Rightarrow> (exn + unit) \<times> 'db"
  get_User_or_404 :: "'db \<Rightarrow> pydict \<Rightarrow> exn + user"
  get_FriendshipRequest_or_404 :: "'db \<Rightarrow> pydict \<Rightarrow> exn + friendship_request"

text \<open>Every call that leaves the repository, with its arguments, and how it ended.\<close>

datatype call =
    Call_friends user
  | Call_are_friends user user
  | Call_unrejected_requests user
  | Call_sent_requests user
  | Call_rejected_requests user
  | Call_add_friend user user pyval
  | Call_remove_friend user user
  | Call_accept friendship_request
  | Call_reject friendship_request
  | Call_get_User pydict
  | Call_get_FriendshipRequest pydict
  | Call_serialize_user user
  | Call_serialize_users "user list"
  | Call_serialize_request friendship_request
  | Call_serialize_requests "friendship_request list"

datatype outcome = Returned | Raised exn

datatype queryset = Users "user list" | FriendshipRequests "friendship_request list"

text \<open>
  The state a view runs in: the database, the log of external calls, and the two
  attributes of the view instance that the views assign.
\<close>

record 'db state =
  db :: 'db
  calls :: "(call \<times> outcome) list"
  self_queryset :: "queryset option"
  self_http_method_names :: "string list"

type_synonym ('db, 'a) action = "'db state \<Rightarrow> (exn + 'a) \<times> 'db state"

text \<open>Sequencing: a raised exception skips the rest; \<^verbatim>\<open>try ... except\<close> handles it.\<close>

definition and_then :: "('db, 'a) action \<Rightarrow> ('a \<Rightarrow> ('db, 'b) action) \<Rightarrow> ('db, 'b) action" where
  "and_then m f s = (case m s of (Inl e, s') \<Rightarrow> (Inl e, s') | (Inr a, s') \<Rightarrow> f a s')"

definition return :: "'a \<Rightarrow> ('db, 'a) action" where
  "return a s = (Inr a, s)"

definition raise :: "exn \<Rightarrow> ('db, 'a) action" where
  "raise e s = (Inl e, s)"

definition try_except :: "('db, 'a) action \<Rightarrow> (exn \<Rightarrow> ('db, 'a) action) \<Rightarrow> ('db, 'a) action" where
  "try_except m handler s = (case m s of (Inl e, s') \<Rightarrow> handler e s' | (Inr a, s') \<Rightarrow> (Inr a, s'))"

definition outcome_of :: "exn + 'a \<Rightarrow> outcome" where
  "outcome_of r = (case r of Inl e \<Rightarrow> Raised e | Inr _ \<Rightarrow> Returned)"

definition query :: "call \<Rightarrow> ('db \<Rightarrow> exn + 'a) \<Rightarrow> ('db, 'a) action" where
  "query c f s = (let r = f (db s) in (r, s\<lparr>calls := calls s @ [(c, outcome_of r)]\<rparr>))"

definition command :: "call \<Rightarrow> ('db \<Rightarrow> (exn + 'a) \<times> 'db) \<Rightarrow> ('db, 'a) action" where
  "command c f s =
     (case f (db s) of (r, db') \<Rightarrow> (r, s\<lparr>db := db', calls := calls s @ [(c, outcome_of r)]\<rparr>))"

definition serialize :: "call \<Rightarrow> exn + pyval \<Rightarrow> ('db, pyval) action" where
  "serialize c r s = (r, s\<lparr>calls := calls s @ [(c, outcome_of r)]\<rparr>)"

definition set_queryset :: "queryset \<Rightarrow> ('db, unit) action" where
  "set_queryset q s = (Inr (), s\<lparr>self_queryset := Some q\<rparr>)"

definition set_http_method_names :: "string list \<Rightarrow> ('db, unit) action" where
  "set_http_method_names ms s = (Inr (), s\<lparr>self_http_method_names := ms\<rparr>)"

section \<open>The views (views.py, class FriendViewSet)\<close>

definition list :: "viewset_class \<Rightarrow> 'db backend \<Rightarrow> request \<Rightarrow> ('db, response) action" where
  "list self B request =
     and_then (query (Call_friends (user request)) (\<lambda>d. Friend_friends B d (user request)))
       (\<lambda>friend_requests.
     and_then (set_queryset (Users friend_requests)) (\<lambda>_.
     and_then (set_http_method_names [''get'', ''head'', ''options'']) (\<lambda>_.
     and_then (serialize (Call_serialize_users friend_requests)
                 (many (serializer_class self) friend_requests)) (\<lambda>body.
     return (Response body HTTP_200_OK)))))"

definition retrieve :: "viewset_class \<Rightarrow> 'db backend \<Rightarrow> request \<Rightarrow> pyval \<Rightarrow> ('db, response) action" where
  "retrieve self B request pk_arg =
     and_then (query (Call_friends (user request)) (\<lambda>d. Friend_friends B d (user request)))
       (\<lambda>friends.
     and_then (set_queryset (Users friends)) (\<lambda>_.
     and_then (query (Call_get_User [(''pk'', pk_arg)]) (\<lambda>d. get_User_or_404 B d [(''pk'', pk_arg)]))
       (\<lambda>requested_user.
     and_then (query (Call_are_friends (user request) requested_user)
                 (\<lambda>d. Friend_are_friends B d (user request) requested_user)) (\<lambda>friends_now.
     if friends_now then
       and_then (set_http_method_names [''get'', ''head'', ''options'']) (\<lambda>_.
       and_then (serialize (Call_serialize_user requested_user)
                   (serializer_class self requested_user)) (\<lambda>body.
       return (Response body HTTP_200_OK)))
     else
       return (Response (PDict [(''message'', PStr ''Friend relationship not found for user.'')])
                 HTTP_400_BAD_REQUEST)))))"

text \<open>Lines 53 to 63 of \<^verbatim>\<open>get_user_from_friend_data\<close>: the lookup arguments.\<close>

definition user_data :: "pydict \<Rightarrow> bool \<Rightarrow> pydict" where
  "user_data d allow_id =
     (let ud = [];
          ud = (if contains d ''username'' then setitem ud ''username'' (get d ''username'') else ud);
          ud = (if contains d ''to_user'' then setitem ud ''username'' (get d ''to_user'') else ud);
          ud = (if contains d ''email'' then setitem ud ''email'' (get d ''email'') else ud);
          ud = (if allow_id \<and> contains d ''id'' then setitem ud ''id'' (get d ''id'') else ud)
      in ud)"

definition get_user_from_friend_data :: "'db backend \<Rightarrow> pydict \<Rightarrow> bool \<Rightarrow> ('db, user) action" where
  "get_user_from_friend_data B d allow_id =
     query (Call_get_User (user_data d allow_id)) (\<lambda>x. get_User_or_404 B x (user_data d allow_id))"

definition requests :: "viewset_class \<Rightarrow> 'db backend \<Rightarrow> request \<Rightarrow> ('db, response) action" where
  "requests self B request =
     and_then (query (Call_unrejected_requests (user request))
                 (\<lambda>d. Friend_unrejected_requests B d (user request))) (\<lambda>friend_requests.
     and_then (set_queryset (FriendshipRequests friend_requests)) (\<lambda>_.
     and_then (serialize (Call_serialize_requests friend_requests)
                 (many (friendshiprequest_serializer_class self) friend_requests)) (\<lambda>body.
     return (Response body HTTP_200_OK))))"

definition sent_requests :: "viewset_class \<Rightarrow> 'db backend \<Rightarrow> request \<Rightarrow> ('db, response) action" where
  "sent_requests self B request =
     and_then (query (Call_sent_requests (user request))
                 (\<lambda>d. Friend_sent_requests B d (user request))) (\<lambda>friend_requests.
     and_then (set_queryset (FriendshipRequests friend_requests)) (\<lambda>_.
     and_then (serialize (Call_serialize_requests friend_requests)
                 (many (friendshiprequest_serializer_class self) friend_requests)) (\<lambda>body.
     return (Response body HTTP_200_OK))))"

definition rejected_requests :: "viewset_class \<Rightarrow> 'db backend \<Rightarrow> request \<Rightarrow> ('db, response) action" where
  "rejected_requests self B request =
     and_then (query (Call_rejected_requests (user request))
                 (\<lambda>d. Friend_rejected_requests B d (user request))) (\<lambda>friend_requests.
     and_then (set_queryset (FriendshipRequests friend_requests)) (\<lambda>_.
     and_then (serialize (Call_serialize_requests friend_requests)
                 (many (friendshiprequest_serializer_class self) friend_requests)) (\<lambda>body.
     return (Response body HTTP_200_OK))))"

text \<open>
  The handler of \<^verbatim>\<open>except (AlreadyExistsError, AlreadyFriendsError) as e\<close>: any other
  exception is raised again.
\<close>

fun add_friend_except :: "exn \<Rightarrow> ('db, response) action" where
  "add_friend_except (AlreadyExistsError m) =
     return (Response (PDict [(''message'', PStr m)]) HTTP_400_BAD_REQUEST)"
| "add_friend_except (AlreadyFriendsError m) =
     return (Response (PDict [(''message'', PStr m)]) HTTP_400_BAD_REQUEST)"
| "add_friend_except e = raise e"

definition add_friend :: "viewset_class \<Rightarrow> 'db backend \<Rightarrow> request \<Rightarrow> ('db, response) action" where
  "add_friend self B request =
     and_then (get_user_from_friend_data B (data request) False) (\<lambda>to_user.
     try_except
       (and_then (command (Call_add_friend (user request) to_user
                             (get_default (data request) ''message'' (PStr '''')))
                    (\<lambda>d. Friend_add_friend B d (user request) to_user
                            (get_default (data request) ''message'' (PStr ''''))))
          (\<lambda>friend_obj.
        and_then (serialize (Call_serialize_request friend_obj)
                    (friendshiprequest_serializer_class self friend_obj)) (\<lambda>body.
        return (Response body HTTP_201_CREATED))))
       add_friend_except)"

definition remove_friend :: "viewset_class \<Rightarrow> 'db backend \<Rightarrow> request \<Rightarrow> ('db, response) action" where
  "remove_friend self B request =
     and_then (get_user_from_friend_data B (data request) True) (\<lambda>to_user.
     and_then (command (Call_remove_friend (user request) to_user)
                 (\<lambda>d. Friend_remove_friend B d (user request) to_user)) (\<lambda>removed.
     return (if removed
             then Response (PDict [(''message'', PStr ''Friend deleted.'')]) HTTP_204_NO_CONTENT
             else Response (PDict [(''message'', PStr ''Friend not found.'')]) HTTP_400_BAD_REQUEST)))"

definition accept_request :: "viewset_class \<Rightarrow> 'db backend \<Rightarrow> request \<Rightarrow> ('db, response) action" where
  "accept_request self B request =
     and_then (query (Call_get_FriendshipRequest [(''pk'', get_default (data request) ''id'' PNone)])
                 (\<lambda>d. get_FriendshipRequest_or_404 B d
                         [(''pk'', get_default (data request) ''id'' PNone)]))
       (\<lambda>friendship_request.
     if \<not> user_eq (to_user friendship_request) (user request) then
       return (Response (PDict [(''message'', PStr ''Request for current user not found.'')])
                 HTTP_400_BAD_REQUEST)
     else
       and_then (command (Call_accept friendship_request)
                   (\<lambda>d. FriendshipRequest_accept B d friendship_request)) (\<lambda>_.
       return (Response (PDict [(''message'', PStr ''Request accepted, user added to friends.'')])
                 HTTP_201_CREATED)))"

definition reject_request :: "viewset_class \<Rightarrow> 'db backend \<Rightarrow> request \<Rightarrow> ('db, response) action" where
  "reject_request self B request =
     and_then (query (Call_get_FriendshipRequest [(''pk'', get_default (data request) ''id'' PNone)])
                 (\<lambda>d. get_FriendshipRequest_or_404 B d
                         [(''pk'', get_default (data request) ''id'' PNone)]))
       (\<lambda>friendship_request.
     if \<not> user_eq (to_user friendship_request) (user request) then
       return (Response (PDict [(''message'', PStr ''Request for current user not found.'')])
                 HTTP_400_BAD_REQUEST)
     else
       and_then (command (Call_reject friendship_request)
                   (\<lambda>d. FriendshipRequest_reject B d friendship_request)) (\<lambda>_.
       return (Response (PDict [(''message'', PStr ''Request rejected, user NOT added to friends.'')])
                 HTTP_201_CREATED)))"

text \<open>The actions of the view set by name, as the router maps them to the methods.\<close>

datatype view =
    List
  | Retrieve pyval
  | Requests
  | Sent_requests
  | Rejected_requests
  | Add_friend
  | Remove_friend
  | Accept_request
  | Reject_request

fun run_view :: "viewset_class \<Rightarrow> 'db backend \<Rightarrow> view \<Rightarrow> request \<Rightarrow> ('db, response) action" where
  "run_view self B List request = list self B request"
| "run_view self B (Retrieve pk_arg) request = retrieve self B request pk_arg"
| "run_view self B Requests request = requests self B request"
| "run_view self B Sent_requests request = sent_requests self B request"
| "run_view self B Rejected_requests request = rejected_requests self B request"
| "run_view self B Add_friend request = add_friend self B request"
| "run_view self B Remove_friend request = remove_friend self B request"
| "run_view self B Accept_request request = accept_request self B request"
| "run_view self B Reject_request request = reject_request self B request"

text \<open>The external calls a view made: what it appended to the log.\<close>

definition new_calls :: "'db state \<Rightarrow> 'db state \<Rightarrow> (call \<times> outcome) list" where
  "new_calls s s' = drop (length (calls s)) (calls s')"

text \<open>The exception classes of the one \<^verbatim>\<open>except\<close> clause, and \<^verbatim>\<open>str(e)\<close>.\<close>

fun caught :: "exn \<Rightarrow> bool" where
  "caught (AlreadyExistsError m) = True"
| "caught (AlreadyFriendsError m) = True"
| "caught _ = False"

fun str :: "exn \<Rightarrow> string" where
  "str (AlreadyExistsError m) = m"
| "str (AlreadyFriendsError m) = m"
| "str (Http404 m) = m"
| "str (OtherError c m) = m"

text \<open>The calls made inside the \<^verbatim>\<open>try\<close> block of \<^verbatim>\<open>add_friend\<close>.\<close>

fun in_try :: "call \<Rightarrow> bool" where
  "in_try (Call_add_friend a b m) = True"
| "in_try (Call_serialize_request r) = True"
| "in_try _ = False"

section \<open>An in-memory backend, to run the views on concrete inputs\<close>

text \<open>
  A small relationship store with the behaviour the external library documents: a list
  of users, friendship rows in both directions, pending requests and the rejected ones.
  The theorems below hold for every backend; this one evaluates them.
\<close>

record mem_db =
  users :: "user list"
  friendships :: "(int \<times> int) list"
  pending :: "friendship_request list"
  rejected_pks :: "int list"

definition mem_friends :: "mem_db \<Rightarrow> user \<Rightarrow> exn + user list" where
  "mem_friends d u = Inr (filter (\<lambda>v. (pk u, pk v) \<in> set (friendships d)) (users d))"

definition mem_are_friends :: "mem_db \<Rightarrow> user \<Rightarrow> user \<Rightarrow> exn + bool" where
  "mem_are_friends d u v = Inr ((pk u, pk v) \<in> set (friendships d))"

definition mem_unrejected_requests :: "mem_db \<Rightarrow> user \<Rightarrow> exn + friendship_request list" where
  "mem_unrejected_requests d u =
     Inr (filter (\<lambda>r. pk (to_user r) = pk u \<and> \<not> (request_pk r) \<in> set (rejected_pks d)) (pending d))"

definition mem_sent_requests :: "mem_db \<Rightarrow> user \<Rightarrow> exn + friendship_request list" where
  "mem_sent_requests d u = Inr (filter (\<lambda>r. pk (from_user r) = pk u) (pending d))"

definition mem_rejected_requests :: "mem_db \<Rightarrow> user \<Rightarrow> exn + friendship_request list" where
  "mem_rejected_requests d u =
     Inr (filter (\<lambda>r. pk (to_user r) = pk u \<and> (request_pk r) \<in> set (rejected_pks d)) (pending d))"

definition mem_add_friend ::
  "mem_db \<Rightarrow> user \<Rightarrow> user \<Rightarrow> pyval \<Rightarrow> (exn + friendship_request) \<times> mem_db" where
  "mem_add_friend d f t msg =
     (if pk f = pk t then
        (Inl (OtherError ''ValidationError'' ''Users cannot be friends with themselves.''), d)
      else if (pk f, pk t) \<in> set (friendships d) then
        (Inl (AlreadyFriendsError ''Users are already friends''), d)
      else if list_ex (\<lambda>r. pk (from_user r) = pk f \<and> pk (to_user r) = pk t) (pending d) then
        (Inl (AlreadyExistsError ''You already requested friendship from this user.''), d)
      else
        (let r = \<lparr> request_pk = int (length (pending d)) + 1, from_user = f, to_user = t,
                   message = msg \<rparr>
         in (Inr r, d\<lparr>pending := pending d @ [r]\<rparr>)))"

definition mem_remove_friend :: "mem_db \<Rightarrow> user \<Rightarrow> user \<Rightarrow> (exn + bool) \<times> mem_db" where
  "mem_remove_friend d f t =
     (if (pk f, pk t) \<in> set (friendships d) then
        (Inr True,
         d\<lparr>friendships := filter (\<lambda>p. p \<noteq> (pk f, pk t) \<and> p \<noteq> (pk t, pk f)) (friendships d)\<rparr>)
      else (Inr False, d))"

definition mem_accept :: "mem_db \<Rightarrow> friendship_request \<Rightarrow> (exn + unit) \<times> mem_db" where
  "mem_accept d r =
     (Inr (),
      d\<lparr>friendships := friendships d @
           [(pk (from_user r), pk (to_user r)), (pk (to_user r), pk (from_user r))],
        pending := filter (\<lambda>x. request_pk x \<noteq> request_pk r) (pending d)\<rparr>)"

definition mem_reject :: "mem_db \<Rightarrow> friendship_request \<Rightarrow> (exn + unit) \<times> mem_db" where
  "mem_reject d r = (Inr (), d\<lparr>rejected_pks := rejected_pks d @ [request_pk r]\<rparr>)"

definition mem_get_User :: "mem_db \<Rightarrow> pydict \<Rightarrow> exn + user" where
  "mem_get_User d kw =
     (case filter (\<lambda>u. list_all (\<lambda>(k, v). user_getattr u k = Some v) kw) (users d) of
        [] \<Rightarrow> Inl (Http404 ''No User matches the given query.'')
      | [u] \<Rightarrow> Inr u
      | _ \<Rightarrow> Inl (OtherError ''MultipleObjectsReturned'' ''get() returned more than one User''))"

definition mem_get_FriendshipRequest :: "mem_db \<Rightarrow> pydict \<Rightarrow> exn + friendship_request" where
  "mem_get_FriendshipRequest d kw =
     (case filter (\<lambda>r. kw = [(''pk'', PInt (request_pk r))]) (pending d) of
        [] \<Rightarrow> Inl (Http404 ''No FriendshipRequest matches the given query.'')
      | r # _ \<Rightarrow> Inr r)"

definition mem_backend :: "mem_db backend" where
  "mem_backend =
     \<lparr> Friend_friends = mem_friends,
       Friend_are_friends = mem_are_friends,
       Friend_unrejected_requests = mem_unrejected_requests,
       Friend_sent_requests = mem_sent_requests,
       Friend_rejected_requests = mem_rejected_requests,
       Friend_add_friend = mem_add_friend,
       Friend_remove_friend = mem_remove_friend,
       FriendshipRequest_accept = mem_accept,
       FriendshipRequest_reject = mem_reject,
       get_User_or_404 = mem_get_User,
       get_FriendshipRequest_or_404 = mem_get_FriendshipRequest \<rparr>"

definition alice :: user where
  "alice = \<lparr> pk = 1, username = ''alice'', email = ''alice@example.org'', password = ''a1'' \<rparr>"

definition bob :: user where
  "bob = \<lparr> pk = 2, username = ''bob'', email = ''bob@example.org'', password = ''b2'' \<rparr>"

definition carol :: user where
  "carol = \<lparr> pk = 3, username = ''carol'', email = ''carol@example.org'', password = ''c3'' \<rparr>"

text \<open>Alice and Carol are friends; Bob has asked Alice, and Carol has asked Bob.\<close>

definition bob_asks_alice :: friendship_request where
  "bob_asks_alice = \<lparr> request_pk = 1, from_user = bob, to_user = alice, message = PStr ''hello'' \<rparr>"

definition carol_asks_bob :: friendship_request where
  "carol_asks_bob = \<lparr> request_pk = 2, from_user = carol, to_user = bob, message = PStr '''' \<rparr>"

definition db0 :: mem_db where
  "db0 = \<lparr> users = [alice, bob, carol], friendships = [(1, 3), (3, 1)],
           pending = [bob_asks_alice, carol_asks_bob], rejected_pks = [] \<rparr>"

definition state0 :: "mem_db state" where
  "state0 = \<lparr> db = db0, calls = [], self_queryset = None,
              self_http_method_names =
                [''get'', ''post'', ''put'', ''patch'', ''delete'', ''head'', ''options'', ''trace''] \<rparr>"

text \<open>Serializers and settings for the concrete runs.\<close>

definition request_getattr :: "friendship_request \<Rightarrow> string \<Rightarrow> pyval option" where
  "request_getattr r f =
     (if f = ''id'' then Some (PInt (request_pk r))
      else if f = ''from_user'' then Some (PStr (username (from_user r)))
      else if f = ''to_user'' then Some (PStr (username (to_user r)))
      else if f = ''message'' then Some (message r)
      else None)"

definition mem_serializers :: serializers_module where
  "mem_serializers =
     \<lparr> FriendshipRequestSerializer =
         ModelSerializer request_getattr [''id'', ''from_user'', ''to_user'', ''message''] \<rparr>"

definition mem_importer :: importer where
  "mem_importer =
     \<lparr> import_permission = (\<lambda>p.
         if p = ''rest_framework.permissions.AllowAny'' then Inr (\<lambda>_. True)
         else Inl (OtherError ''ImportError'' p)),
       import_user_serializer = (\<lambda>p.
         if p = ''rest_friendship.serializers.UserSerializer'' then Inr UserSerializer
         else Inl (OtherError ''ImportError'' p)),
       import_request_serializer = (\<lambda>p. Inl (OtherError ''ImportError'' p)) \<rparr>"

text \<open>
  The default settings name no user serializer; the second settings name
  \<^verbatim>\<open>UserSerializer\<close> by its import path.
\<close>

definition settings_default :: rest_friendship where
  "settings_default =
     \<lparr> key_PERMISSION_CLASSES = Some [''rest_framework.permissions.AllowAny''],
       key_USER_SERIALIZER = None,
       key_FRIENDSHIPREQUEST_SERIALIZER = None \<rparr>"

definition settings_named :: rest_friendship where
  "settings_named =
     \<lparr> key_PERMISSION_CLASSES = Some [''rest_framework.permissions.AllowAny''],
       key_USER_SERIALIZER = Some ''rest_friendship.serializers.UserSerializer'',
       key_FRIENDSHIPREQUEST_SERIALIZER = None \<rparr>"

text \<open>The class attributes the two settings give.\<close>

definition viewset_default :: viewset_class where
  "viewset_default =
     \<lparr> permission_classes = [\<lambda>_. True],
       serializer_class = FriendSerializer,
       friendshiprequest_serializer_class = FriendshipRequestSerializer mem_serializers,
       lookup_field = ''pk'' \<rparr>"

definition viewset_named :: viewset_class where
  "viewset_named =
     \<lparr> permission_classes = [\<lambda>_. True],
       serializer_class = UserSerializer,
       friendshiprequest_serializer_class = FriendshipRequestSerializer mem_serializers,
       lookup_field = ''pk'' \<rparr>"

text \<open>The same store behind a library whose \<^verbatim>\<open>friends\<close> query fails.\<close>

definition mem_backend_friends_down :: "mem_db backend" where
  "mem_backend_friends_down =
     mem_backend\<lparr>Friend_friends :=
       (\<lambda>d u. Inl (OtherError ''OperationalError'' ''database is locked''))\<rparr>"

text \<open>The requests of the concrete runs, all sent by Alice.\<close>

definition alice_gets :: request where
  "alice_gets = \<lparr> user = alice, data = [] \<rparr>"

definition alice_adds_bob :: request where
  "alice_adds_bob =
     \<lparr> user = alice, data = [(''username'', PStr ''bob''), (''message'', PStr ''hi'')] \<rparr>"

definition alice_adds_carol :: request where
  "alice_adds_carol = \<lparr> user = alice, data = [(''username'', PStr ''carol'')] \<rparr>"

definition alice_adds_herself :: request where
  "alice_adds_herself = \<lparr> user = alice, data = [(''username'', PStr ''alice'')] \<rparr>"

definition alice_removes :: "int \<Rightarrow> request" where
  "alice_removes n = \<lparr> user = alice, data = [(''id'', PInt n)] \<rparr>"

definition alice_answers :: "int \<Rightarrow> request" where
  "alice_answers n = \<lparr> user = alice, data = [(''id'', PInt n)] \<rparr>"

text \<open>The request the store creates when Alice asks Bob.\<close>

definition alice_asks_bob :: friendship_request where
  "alice_asks_bob = \<lparr> request_pk = 3, from_user = alice, to_user = bob, message = PStr ''hi'' \<rparr>"

section \<open>Basic facts\<close>

lemmas action_defs = and_then_def return_def raise_def try_except_def query_def command_def
  serialize_def set_queryset_def set_http_method_names_def outcome_of_def Let_def

lemmas mem_defs = mem_backend_def mem_friends_def mem_are_friends_def mem_unrejected_requests_def
  mem_sent_requests_def mem_rejected_requests_def mem_add_friend_def mem_remove_friend_def
  mem_accept_def mem_reject_def mem_get_User_def mem_get_FriendshipRequest_def
  state0_def db0_def alice_def bob_def carol_def bob_asks_alice_def carol_asks_bob_def
  user_getattr_def request_getattr_def user_data_def contains_def get_def
  get_default_def setitem_def ModelSerializer_def UserSerializer_def UserSerializer_fields_def
  mem_serializers_def viewset_default_def viewset_named_def FriendSerializer_def
  alice_gets_def alice_adds_bob_def alice_adds_carol_def alice_adds_herself_def
  alice_removes_def alice_answers_def alice_asks_bob_def Let_def

lemma serialize_many_map: "map ser xs = map Inr ds \<Longrightarrow> serialize_many ser xs = Inr ds"
  by (induction xs arbitrary: ds) auto

lemma serialize_many_items: "serialize_many ser xs = Inr ds \<Longrightarrow> map ser xs = map Inr ds"
  by (induction xs arbitrary: ds) (auto split: sum.splits)

lemma many_Inr: "map ser xs = map Inr ds \<Longrightarrow> many ser xs = Inr (PList ds)"
  by (simp add: many_def serialize_many_map)

lemma add_friend_except_eq:
  "add_friend_except e s =
     (if caught e then Inr (Response (PDict [(''message'', PStr (str e))]) HTTP_400_BAD_REQUEST)
      else Inl e, s)"
  by (cases e) (simp_all add: return_def raise_def)

lemma list_run:
  assumes "Friend_friends B (db s) (user request) = Inr fs"
      and "map (serializer_class self) fs = map Inr ds"
  shows "list self B request s =
           (Inr (Response (PList ds) HTTP_200_OK),
            s\<lparr>calls := calls s @ [(Call_friends (user request), Returned),
                                   (Call_serialize_users fs, Returned)],
              self_queryset := Some (Users fs),
              self_http_method_names := [''get'', ''head'', ''options'']\<rparr>)"
  using assms by (simp add: list_def action_defs many_Inr)

lemma UserSerializer_data:
  "UserSerializer u =
     Inr (PDict [(''pk'', PInt (pk u)), (''username'', PStr (username u)), (''email'', PStr (email u))])"
  by (simp add: UserSerializer_def UserSerializer_fields_def ModelSerializer_def user_getattr_def)

section \<open>add_friend delegates to the library\<close>

text \<open>
  Claim C1. When the POST data of \<^verbatim>\<open>add_friend\<close> resolves to a user, the view makes no
  check of its own, whoever the recipient is (the sender included, an existing friend
  included): after the lookup its one library call is \<^verbatim>\<open>Friend.objects.add_friend\<close> with
  the requesting user as sender, the resolved user as recipient and the request's
  \<^verbatim>\<open>message\<close> value, the empty string when the key is absent. The database after the
  view is the one the library returned. When the call returns a friendship request, it is
  serialized by the configured friendship-request serializer and the response is that
  serialization with status 201.
\<close>

theorem add_friend_delegates:
  assumes "get_User_or_404 B (db s) (user_data (data request) False) = Inr recipient"
      and "Friend_add_friend B (db s) (user request) recipient
             (get_default (data request) ''message'' (PStr '''')) = (r, db')"
  shows "db (snd (add_friend self B request s)) = db'
       \<and> calls (snd (add_friend self B request s)) =
           calls s @
           [(Call_get_User (user_data (data request) False), Returned),
            (Call_add_friend (user request) recipient
               (get_default (data request) ''message'' (PStr '''')), outcome_of r)] @
           (case r of
              Inl e \<Rightarrow> []
            | Inr friend_obj \<Rightarrow>
                [(Call_serialize_request friend_obj,
                  outcome_of (friendshiprequest_serializer_class self friend_obj))])
       \<and> (\<forall>friend_obj body.
             r = Inr friend_obj \<and> friendshiprequest_serializer_class self friend_obj = Inr body \<longrightarrow>
             fst (add_friend self B request s) = Inr (Response body HTTP_201_CREATED))
       \<and> (map_of (data request) ''message'' = None \<longrightarrow>
             get_default (data request) ''message'' (PStr '''') = PStr '''')"
  using assms
  by (cases r)
     (auto simp: add_friend_def get_user_from_friend_data_def action_defs add_friend_except_eq
           get_default_def split: sum.splits)

text \<open>
  Alice asks Bob with the message \<open>hi\<close>: the store creates request 3, the response is
  its serialization with status 201, and the log holds the lookup, the library call and
  the serialization.
\<close>

theorem add_friend_delegates_witness:
  "get_User_or_404 mem_backend (db state0) (user_data (data alice_adds_bob) False) = Inr bob
   \<and> Friend_add_friend mem_backend (db state0) (user alice_adds_bob) bob
        (get_default (data alice_adds_bob) ''message'' (PStr ''''))
      = (Inr alice_asks_bob, db0\<lparr>pending := pending db0 @ [alice_asks_bob]\<rparr>)
   \<and> fst (add_friend viewset_default mem_backend alice_adds_bob state0) =
       Inr (Response
              (PDict [(''id'', PInt 3), (''from_user'', PStr ''alice''), (''to_user'', PStr ''bob''),
                      (''message'', PStr ''hi'')])
              HTTP_201_CREATED)
   \<and> db (snd (add_friend viewset_default mem_backend alice_adds_bob state0)) =
       db0\<lparr>pending := pending db0 @ [alice_asks_bob]\<rparr>
   \<and> calls (snd (add_friend viewset_default mem_backend alice_adds_bob state0)) =
       [(Call_get_User [(''username'', PStr ''bob'')], Returned),
        (Call_add_friend alice bob (PStr ''hi''), Returned),
        (Call_serialize_request alice_asks_bob, Returned)]"
proof -
  have h1: "get_User_or_404 mem_backend (db state0) (user_data (data alice_adds_bob) False) = Inr bob"
    by (simp add: mem_defs)
  have h2: "Friend_add_friend mem_backend (db state0) (user alice_adds_bob) bob
        (get_default (data alice_adds_bob) ''message'' (PStr ''''))
      = (Inr alice_asks_bob, db0\<lparr>pending := pending db0 @ [alice_asks_bob]\<rparr>)"
    by (simp add: mem_defs)
  have h3: "friendshiprequest_serializer_class viewset_default alice_asks_bob =
       Inr (PDict [(''id'', PInt 3), (''from_user'', PStr ''alice''), (''to_user'', PStr ''bob''),
                      (''message'', PStr ''hi'')])"
    by (simp add: mem_defs)
  note t = add_friend_delegates [OF h1 h2, of viewset_default]
  have r: "fst (add_friend viewset_default mem_backend alice_adds_bob state0) =
       Inr (Response
              (PDict [(''id'', PInt 3), (''from_user'', PStr ''alice''), (''to_user'', PStr ''bob''),
                      (''message'', PStr ''hi'')])
              HTTP_201_CREATED)"
    using t h3 by blast
  have u: "user_data (data alice_adds_bob) False = [(''username'', PStr ''bob'')]"
          "get_default (data alice_adds_bob) ''message'' (PStr '''') = PStr ''hi''"
          "user alice_adds_bob = alice" "calls state0 = []"
    by (simp_all add: mem_defs)
  show ?thesis
    using h1 h2 r t h3 unfolding u by (simp add: outcome_of_def)
qed

section \<open>Exceptions: one handler, in add_friend\<close>

text \<open>What a view returns when one of its external calls raised.\<close>

lemma list_raise:
  "list self B request s = (out, s') \<Longrightarrow> (c, Raised e) \<in> set (new_calls s s') \<Longrightarrow> out = Inl e"
  by (auto simp: list_def action_defs new_calls_def split: sum.splits)

lemma retrieve_raise:
  "retrieve self B request pk_arg s = (out, s') \<Longrightarrow> (c, Raised e) \<in> set (new_calls s s') \<Longrightarrow>
     out = Inl e"
  by (auto simp: retrieve_def action_defs new_calls_def split: sum.splits if_splits)

lemma requests_raise:
  "requests self B request s = (out, s') \<Longrightarrow> (c, Raised e) \<in> set (new_calls s s') \<Longrightarrow> out = Inl e"
  by (auto simp: requests_def action_defs new_calls_def split: sum.splits)

lemma sent_requests_raise:
  "sent_requests self B request s = (out, s') \<Longrightarrow> (c, Raised e) \<in> set (new_calls s s') \<Longrightarrow>
     out = Inl e"
  by (auto simp: sent_requests_def action_defs new_calls_def split: sum.splits)

lemma rejected_requests_raise:
  "rejected_requests self B request s = (out, s') \<Longrightarrow> (c, Raised e) \<in> set (new_calls s s') \<Longrightarrow>
     out = Inl e"
  by (auto simp: rejected_requests_def action_defs new_calls_def split: sum.splits)

lemma remove_friend_raise:
  "remove_friend self B request s = (out, s') \<Longrightarrow> (c, Raised e) \<in> set (new_calls s s') \<Longrightarrow>
     out = Inl e"
  by (auto simp: remove_friend_def get_user_from_friend_data_def action_defs new_calls_def
        split: sum.splits prod.splits)

lemma accept_request_raise:
  "accept_request self B request s = (out, s') \<Longrightarrow> (c, Raised e) \<in> set (new_calls s s') \<Longrightarrow>
     out = Inl e"
  by (auto simp: accept_request_def action_defs new_calls_def split: sum.splits prod.splits if_splits)

lemma reject_request_raise:
  "reject_request self B request s = (out, s') \<Longrightarrow> (c, Raised e) \<in> set (new_calls s s') \<Longrightarrow>
     out = Inl e"
  by (auto simp: reject_request_def action_defs new_calls_def split: sum.splits prod.splits if_splits)

lemma add_friend_raise:
  "add_friend self B request s = (out, s') \<Longrightarrow> (c, Raised e) \<in> set (new_calls s s') \<Longrightarrow>
     out = (if in_try c \<and> caught e
            then Inr (Response (PDict [(''message'', PStr (str e))]) HTTP_400_BAD_REQUEST)
            else Inl e)"
  by (auto simp: add_friend_def get_user_from_friend_data_def action_defs new_calls_def
        add_friend_except_eq split: sum.splits prod.splits if_splits)

text \<open>
  Claim C2. Whenever an external call of any of the nine actions raises an exception,
  the action ends with that exception unchanged, so the repository maps it to no
  HTTP status, with one exception: in \<^verbatim>\<open>add_friend\<close>, when the call inside the
  \<^verbatim>\<open>try\<close> block (the library's \<^verbatim>\<open>add_friend\<close>, or the serialization that follows it)
  raises \<^verbatim>\<open>AlreadyExistsError\<close> or \<^verbatim>\<open>AlreadyFriendsError\<close>, the view returns HTTP 400
  with the body \<^verbatim>\<open>{"message": str(e)}\<close>.
\<close>

theorem only_add_friend_catches:
  assumes "run_view self B v request s = (out, s')"
      and "(c, Raised e) \<in> set (new_calls s s')"
  shows "out = (if v = Add_friend \<and> in_try c \<and> caught e
                then Inr (Response (PDict [(''message'', PStr (str e))]) HTTP_400_BAD_REQUEST)
                else Inl e)"
  using assms
  by (cases v)
     (simp_all add: list_raise retrieve_raise requests_raise sent_requests_raise
        rejected_requests_raise remove_friend_raise accept_request_raise reject_request_raise
        add_friend_raise)

text \<open>
  Alice asks Carol, her friend already: the library raises \<^verbatim>\<open>AlreadyFriendsError\<close> and
  the response is 400 with its message. Alice asks herself: the library raises
  \<^verbatim>\<open>ValidationError\<close>, which the view does not catch.
\<close>

theorem only_add_friend_catches_witness:
  "(Call_add_friend alice carol (PStr ''''), Raised (AlreadyFriendsError ''Users are already friends''))
     \<in> set (new_calls state0 (snd (run_view viewset_default mem_backend Add_friend alice_adds_carol state0)))
   \<and> fst (run_view viewset_default mem_backend Add_friend alice_adds_carol state0) =
       Inr (Response (PDict [(''message'', PStr ''Users are already friends'')]) HTTP_400_BAD_REQUEST)
   \<and> (Call_add_friend alice alice (PStr ''''),
       Raised (OtherError ''ValidationError'' ''Users cannot be friends with themselves.''))
     \<in> set (new_calls state0 (snd (run_view viewset_default mem_backend Add_friend alice_adds_herself state0)))
   \<and> fst (run_view viewset_default mem_backend Add_friend alice_adds_herself state0) =
       Inl (OtherError ''ValidationError'' ''Users cannot be friends with themselves.'')"
proof -
  have h1: "(Call_add_friend alice carol (PStr ''''), Raised (AlreadyFriendsError ''Users are already friends''))
     \<in> set (new_calls state0 (snd (run_view viewset_default mem_backend Add_friend alice_adds_carol state0)))"
    by (simp add: add_friend_def get_user_from_friend_data_def action_defs add_friend_except_eq
          new_calls_def mem_defs)
  have h2: "(Call_add_friend alice alice (PStr ''''),
       Raised (OtherError ''ValidationError'' ''Users cannot be friends with themselves.''))
     \<in> set (new_calls state0 (snd (run_view viewset_default mem_backend Add_friend alice_adds_herself state0)))"
    by (simp add: add_friend_def get_user_from_friend_data_def action_defs add_friend_except_eq
          new_calls_def mem_defs)
  show ?thesis
    using h1 h2 only_add_friend_catches [OF surjective_pairing h1]
      only_add_friend_catches [OF surjective_pairing h2]
    by simp
qed

section \<open>retrieve\<close>

text \<open>
  Claim C3, as stated: for a GET of \<^verbatim>\<open>retrieve\<close> whose pk matches a user, the response
  is the serialized user exactly when \<^verbatim>\<open>are_friends\<close> returns true and HTTP 400
  otherwise, and the view adds nothing beyond this single \<^verbatim>\<open>are_friends\<close> call. It
  fails on line 41, where the view first calls \<^verbatim>\<open>Friend.objects.friends\<close>. With the
  in-memory library the log of Alice retrieving Carol holds that call before the lookup
  and \<^verbatim>\<open>are_friends\<close>. With a library whose \<^verbatim>\<open>friends\<close> query fails, pk 3 still matches
  Carol and \<^verbatim>\<open>are_friends\<close> still returns true for Alice and Carol, yet the view ends
  with the exception of \<^verbatim>\<open>friends\<close>: neither the serialized user nor HTTP 400.
\<close>

theorem retrieve_decided_by_are_friends_counterexample:
  "calls (snd (retrieve viewset_default mem_backend alice_gets (PInt 3) state0)) =
     [(Call_friends alice, Returned), (Call_get_User [(''pk'', PInt 3)], Returned),
      (Call_are_friends alice carol, Returned), (Call_serialize_user carol, Returned)]
   \<and> get_User_or_404 mem_backend_friends_down (db state0) [(''pk'', PInt 3)] = Inr carol
   \<and> Friend_are_friends mem_backend_friends_down (db state0) (user alice_gets) carol = Inr True
   \<and> retrieve viewset_default mem_backend_friends_down alice_gets (PInt 3) state0 =
       (Inl (OtherError ''OperationalError'' ''database is locked''),
        state0\<lparr>calls := [(Call_friends alice,
                           Raised (OtherError ''OperationalError'' ''database is locked''))]\<rparr>)"
  by (simp add: retrieve_def action_defs mem_backend_friends_down_def mem_defs)

text \<open>
  Claim C3, amended. For a GET of \<^verbatim>\<open>retrieve\<close> whose pk matches a user, the view first
  calls \<^verbatim>\<open>Friend.objects.friends(user=request.user)\<close>. When that call raises, the view
  ends with its exception and makes no other call. When it returns, its result goes to
  \<^verbatim>\<open>self.queryset\<close> and nowhere else, and the response is the serialized requested user
  (status 200) exactly when \<^verbatim>\<open>Friend.objects.are_friends(request.user, requested_user)\<close>
  returns true, and otherwise HTTP 400 with the message "Friend relationship not found
  for user.". The library calls of the view are this \<^verbatim>\<open>friends\<close> call and one
  \<^verbatim>\<open>are_friends\<close> call; the database is left as it was.
\<close>

theorem retrieve_decided_by_are_friends:
  assumes "get_User_or_404 B (db s) [(''pk'', pk_arg)] = Inr requested_user"
      and "Friend_are_friends B (db s) (user request) requested_user = Inr b"
  shows "fst (retrieve self B request pk_arg s) =
           (case Friend_friends B (db s) (user request) of
              Inl e \<Rightarrow> Inl e
            | Inr fs \<Rightarrow>
                if b then
                  (case serializer_class self requested_user of
                     Inl e \<Rightarrow> Inl e
                   | Inr body \<Rightarrow> Inr (Response body HTTP_200_OK))
                else
                  Inr (Response (PDict [(''message'', PStr ''Friend relationship not found for user.'')])
                         HTTP_400_BAD_REQUEST))
       \<and> (\<forall>fs body. Friend_friends B (db s) (user request) = Inr fs
                      \<and> serializer_class self requested_user = Inr body \<longrightarrow>
             (fst (retrieve self B request pk_arg s) = Inr (Response body HTTP_200_OK)) = b)
       \<and> db (snd (retrieve self B request pk_arg s)) = db s
       \<and> calls (snd (retrieve self B request pk_arg s)) =
           calls s @
           (case Friend_friends B (db s) (user request) of
              Inl e \<Rightarrow> [(Call_friends (user request), Raised e)]
            | Inr fs \<Rightarrow>
                [(Call_friends (user request), Returned),
                 (Call_get_User [(''pk'', pk_arg)], Returned),
                 (Call_are_friends (user request) requested_user, Returned)] @
                (if b then [(Call_serialize_user requested_user,
                             outcome_of (serializer_class self requested_user))]
                 else []))
       \<and> self_queryset (snd (retrieve self B request pk_arg s)) =
           (case Friend_friends B (db s) (user request) of
              Inl e \<Rightarrow> self_queryset s
            | Inr fs \<Rightarrow> Some (Users fs))"
  using assms by (auto simp: retrieve_def action_defs split: sum.splits)

text \<open>
  Alice retrieves Carol, a friend of hers, and then Bob, who is not; then Carol again
  from the library whose \<^verbatim>\<open>friends\<close> query fails.
\<close>

theorem retrieve_decided_by_are_friends_witness:
  "fst (retrieve viewset_default mem_backend alice_gets (PInt 3) state0) =
     Inr (Response
            (PDict [(''pk'', PInt 3), (''username'', PStr ''carol''),
                    (''email'', PStr ''carol@example.org'')])
            HTTP_200_OK)
   \<and> calls (snd (retrieve viewset_default mem_backend alice_gets (PInt 3) state0)) =
       [(Call_friends alice, Returned), (Call_get_User [(''pk'', PInt 3)], Returned),
        (Call_are_friends alice carol, Returned), (Call_serialize_user carol, Returned)]
   \<and> self_queryset (snd (retrieve viewset_default mem_backend alice_gets (PInt 3) state0)) =
       Some (Users [carol])
   \<and> fst (retrieve viewset_default mem_backend alice_gets (PInt 2) state0) =
       Inr (Response (PDict [(''message'', PStr ''Friend relationship not found for user.'')])
              HTTP_400_BAD_REQUEST)
   \<and> calls (snd (retrieve viewset_default mem_backend alice_gets (PInt 2) state0)) =
       [(Call_friends alice, Returned), (Call_get_User [(''pk'', PInt 2)], Returned),
        (Call_are_friends alice bob, Returned)]
   \<and> fst (retrieve viewset_default mem_backend_friends_down alice_gets (PInt 3) state0) =
       Inl (OtherError ''OperationalError'' ''database is locked'')
   \<and> calls (snd (retrieve viewset_default mem_backend_friends_down alice_gets (PInt 3) state0)) =
       [(Call_friends alice, Raised (OtherError ''OperationalError'' ''database is locked''))]"
proof -
  have f: "Friend_friends mem_backend (db state0) alice = Inr [carol]"
    by (simp add: mem_defs)
  have c1: "get_User_or_404 mem_backend (db state0) [(''pk'', PInt 3)] = Inr carol"
    by (simp add: mem_defs)
  have c2: "Friend_are_friends mem_backend (db state0) (user alice_gets) carol = Inr True"
    by (simp add: mem_defs)
  have c3: "serializer_class viewset_default carol =
       Inr (PDict [(''pk'', PInt 3), (''username'', PStr ''carol''),
                   (''email'', PStr ''carol@example.org'')])"
    by (simp add: mem_defs)
  have b1: "get_User_or_404 mem_backend (db state0) [(''pk'', PInt 2)] = Inr bob"
    by (simp add: mem_defs)
  have b2: "Friend_are_friends mem_backend (db state0) (user alice_gets) bob = Inr False"
    by (simp add: mem_defs)
  have d0: "Friend_friends mem_backend_friends_down (db state0) alice =
              Inl (OtherError ''OperationalError'' ''database is locked'')"
    by (simp add: mem_backend_friends_down_def)
  have d1: "get_User_or_404 mem_backend_friends_down (db state0) [(''pk'', PInt 3)] = Inr carol"
    by (simp add: mem_backend_friends_down_def mem_defs)
  have d2: "Friend_are_friends mem_backend_friends_down (db state0) (user alice_gets) carol = Inr True"
    by (simp add: mem_backend_friends_down_def mem_defs)
  have u: "user alice_gets = alice" "calls state0 = []"
    by (simp_all add: mem_defs)
  show ?thesis
    using retrieve_decided_by_are_friends [OF c1 c2, of viewset_default]
      retrieve_decided_by_are_friends [OF b1 b2, of viewset_default]
      retrieve_decided_by_are_friends [OF d1 d2, of viewset_default] c3
    unfolding u f d0 by (simp add: outcome_of_def)
qed

section \<open>The user serializer\<close>

lemma FriendSerializer_data:
  "FriendSerializer u =
     Inr (PDict [(''pk'', PInt (pk u)), (''username'', PStr (username u)), (''email'', PStr (email u))])"
  by (simp add: FriendSerializer_def ModelSerializer_def user_getattr_def)

text \<open>What the module level of views.py makes the user serializer of the view set.\<close>

lemma FriendViewSet_serializer_class:
  assumes "FriendViewSet (Some rf) imp sers = Inr cls"
  shows "(case key_USER_SERIALIZER rf of
            None \<Rightarrow> Inr FriendSerializer
          | Some p \<Rightarrow> import_user_serializer imp p) = Inr (serializer_class cls)"
  using assms by (auto simp: FriendViewSet_def split: option.splits sum.splits)

text \<open>The two views that serialize users, for a serializer that never fails.\<close>

lemma list_total_serializer:
  assumes "\<And>v. serializer_class self v = Inr (P v)"
  shows "fst (list self B request s) =
           (case Friend_friends B (db s) (user request) of
              Inl e \<Rightarrow> Inl e
            | Inr fs \<Rightarrow> Inr (Response (PList (map P fs)) HTTP_200_OK))"
proof (cases "Friend_friends B (db s) (user request)")
  case (Inl e)
  then show ?thesis by (simp add: list_def action_defs)
next
  case (Inr fs)
  have "map (serializer_class self) fs = map Inr (map P fs)"
    by (simp add: assms)
  from list_run [OF Inr this] Inr show ?thesis by simp
qed

lemma retrieve_total_serializer:
  assumes "\<And>v. serializer_class self v = Inr (P v)"
  shows "(\<forall>body. fst (retrieve self B request pk_arg s) = Inr (Response body HTTP_200_OK) \<longrightarrow>
            (\<exists>v. get_User_or_404 B (db s) [(''pk'', pk_arg)] = Inr v \<and> body = P v))
       \<and> (\<forall>fs v. Friend_friends B (db s) (user request) = Inr fs
                  \<and> get_User_or_404 B (db s) [(''pk'', pk_arg)] = Inr v
                  \<and> Friend_are_friends B (db s) (user request) v = Inr True \<longrightarrow>
            fst (retrieve self B request pk_arg s) = Inr (Response (P v) HTTP_200_OK))"
  by (auto simp: retrieve_def action_defs assms split: sum.splits if_splits)

text \<open>
  Claim C4. The default user serializer exposes exactly the three fields pk, username
  and email of the user model, no more and no fewer, in this order: \<^verbatim>\<open>UserSerializer\<close>
  as serializers.py defines it, and \<^verbatim>\<open>FriendSerializer\<close>, the default of views.py. When
  the settings name no user serializer, or name \<^verbatim>\<open>UserSerializer\<close>, this is the
  serializer of the view set, it never fails, and every serialized user in a response
  carries exactly this field set: each item of a \<^verbatim>\<open>list\<close> response, one per friend in
  the library's order, and the body of every 200 response of \<^verbatim>\<open>retrieve\<close>, which is the
  user the lookup returned.
\<close>

theorem user_serializer_fields:
  "UserSerializer u =
     Inr (PDict [(''pk'', PInt (pk u)), (''username'', PStr (username u)), (''email'', PStr (email u))])
   \<and> FriendSerializer u =
     Inr (PDict [(''pk'', PInt (pk u)), (''username'', PStr (username u)), (''email'', PStr (email u))])
   \<and> ((key_USER_SERIALIZER rf = None
         \<or> (\<exists>p. key_USER_SERIALIZER rf = Some p \<and> import_user_serializer imp p = Inr UserSerializer))
        \<and> FriendViewSet (Some rf) imp sers = Inr cls \<longrightarrow>
        (\<forall>v. serializer_class cls v =
               Inr (PDict [(''pk'', PInt (pk v)), (''username'', PStr (username v)),
                           (''email'', PStr (email v))]))
        \<and> fst (list cls B request s) =
            (case Friend_friends B (db s) (user request) of
               Inl e \<Rightarrow> Inl e
             | Inr fs \<Rightarrow>
                 Inr (Response
                        (PList (map (\<lambda>f. PDict [(''pk'', PInt (pk f)), (''username'', PStr (username f)),
                                                  (''email'', PStr (email f))]) fs))
                        HTTP_200_OK))
        \<and> (\<forall>body. fst (retrieve cls B request pk_arg s) = Inr (Response body HTTP_200_OK) \<longrightarrow>
              (\<exists>v. get_User_or_404 B (db s) [(''pk'', pk_arg)] = Inr v
                  \<and> body = PDict [(''pk'', PInt (pk v)), (''username'', PStr (username v)),
                                   (''email'', PStr (email v))]))
        \<and> (\<forall>fs v. Friend_friends B (db s) (user request) = Inr fs
                   \<and> get_User_or_404 B (db s) [(''pk'', pk_arg)] = Inr v
                   \<and> Friend_are_friends B (db s) (user request) v = Inr True \<longrightarrow>
              fst (retrieve cls B request pk_arg s) =
                Inr (Response
                       (PDict [(''pk'', PInt (pk v)), (''username'', PStr (username v)),
                               (''email'', PStr (email v))])
                       HTTP_200_OK)))"
  (is "?user \<and> ?friend \<and> (?key \<and> ?loaded \<longrightarrow> ?ser \<and> ?list \<and> ?body \<and> ?found)")
proof -
  have responses: "?key \<and> ?loaded \<longrightarrow> ?ser \<and> ?list \<and> ?body \<and> ?found"
  proof (rule impI, erule conjE)
    assume k: ?key and v: ?loaded
    from k FriendViewSet_serializer_class [OF v]
    have "serializer_class cls = FriendSerializer \<or> serializer_class cls = UserSerializer"
      by auto
    then have ser: "serializer_class cls w =
        Inr (PDict [(''pk'', PInt (pk w)), (''username'', PStr (username w)),
                    (''email'', PStr (email w))])" for w
      by (auto simp: FriendSerializer_data UserSerializer_data)
    from ser have 1: ?ser ..
    have 2: ?list
      by (rule list_total_serializer) (rule ser)
    have 3: "?body \<and> ?found"
      by (rule retrieve_total_serializer) (rule ser)
    show "?ser \<and> ?list \<and> ?body \<and> ?found"
      by (rule conjI [OF 1 conjI [OF 2 3]])
  qed
  show ?thesis
    by (rule conjI [OF UserSerializer_data conjI [OF FriendSerializer_data responses]])
qed

text \<open>
  The default settings, which name no user serializer, and the settings that name
  \<^verbatim>\<open>UserSerializer\<close>: in both, Alice's friend list is Carol with her three fields, and
  so is Carol retrieved.
\<close>

theorem user_serializer_fields_witness:
  "key_USER_SERIALIZER settings_default = None
   \<and> FriendViewSet (Some settings_default) mem_importer mem_serializers = Inr viewset_default
   \<and> fst (list viewset_default mem_backend alice_gets state0) =
       Inr (Response
              (PList [PDict [(''pk'', PInt 3), (''username'', PStr ''carol''),
                             (''email'', PStr ''carol@example.org'')]])
              HTTP_200_OK)
   \<and> fst (retrieve viewset_default mem_backend alice_gets (PInt 3) state0) =
       Inr (Response
              (PDict [(''pk'', PInt 3), (''username'', PStr ''carol''),
                      (''email'', PStr ''carol@example.org'')])
              HTTP_200_OK)
   \<and> FriendViewSet (Some settings_named) mem_importer mem_serializers = Inr viewset_named
   \<and> fst (list viewset_named mem_backend alice_gets state0) =
       Inr (Response
              (PList [PDict [(''pk'', PInt 3), (''username'', PStr ''carol''),
                             (''email'', PStr ''carol@example.org'')]])
              HTTP_200_OK)"
proof -
  have k0: "key_USER_SERIALIZER settings_default = None"
    by (simp add: settings_default_def)
  have v0: "FriendViewSet (Some settings_default) mem_importer mem_serializers = Inr viewset_default"
    by (simp add: FriendViewSet_def settings_default_def mem_importer_def viewset_default_def)
  have k1: "\<exists>p. key_USER_SERIALIZER settings_named = Some p
                \<and> import_user_serializer mem_importer p = Inr UserSerializer"
    by (simp add: settings_named_def mem_importer_def)
  have v1: "FriendViewSet (Some settings_named) mem_importer mem_serializers = Inr viewset_named"
    by (simp add: FriendViewSet_def settings_named_def mem_importer_def viewset_named_def)
  have f: "Friend_friends mem_backend (db state0) (user alice_gets) = Inr [carol]"
    by (simp add: mem_defs)
  have c1: "get_User_or_404 mem_backend (db state0) [(''pk'', PInt 3)] = Inr carol"
    by (simp add: mem_defs)
  have c2: "Friend_are_friends mem_backend (db state0) (user alice_gets) carol = Inr True"
    by (simp add: mem_defs)
  have p: "pk carol = 3" "username carol = ''carol''" "email carol = ''carol@example.org''"
    by (simp_all add: carol_def)
  note t0 = user_serializer_fields [where u = carol and rf = settings_default
      and imp = mem_importer and sers = mem_serializers and cls = viewset_default
      and B = mem_backend and request = alice_gets and s = state0 and pk_arg = "PInt 3",
      THEN conjunct2, THEN conjunct2, THEN mp, OF conjI [OF disjI1 [OF k0] v0]]
  note t1 = user_serializer_fields [where u = carol and rf = settings_named
      and imp = mem_importer and sers = mem_serializers and cls = viewset_named
      and B = mem_backend and request = alice_gets and s = state0 and pk_arg = "PInt 3",
      THEN conjunct2, THEN conjunct2, THEN mp, OF conjI [OF disjI2 [OF k1] v1]]
  have l0: "fst (list viewset_default mem_backend alice_gets state0) =
       Inr (Response
              (PList [PDict [(''pk'', PInt 3), (''username'', PStr ''carol''),
                             (''email'', PStr ''carol@example.org'')]])
              HTTP_200_OK)"
    using t0 [THEN conjunct2, THEN conjunct1] unfolding f by (simp add: p)
  have r0: "fst (retrieve viewset_default mem_backend alice_gets (PInt 3) state0) =
       Inr (Response
              (PDict [(''pk'', PInt 3), (''username'', PStr ''carol''),
                      (''email'', PStr ''carol@example.org'')])
              HTTP_200_OK)"
    using t0 [THEN conjunct2, THEN conjunct2, THEN conjunct2, rule_format,
        OF conjI [OF f conjI [OF c1 c2]]]
    unfolding p .
  have l1: "fst (list viewset_named mem_backend alice_gets state0) =
       Inr (Response
              (PList [PDict [(''pk'', PInt 3), (''username'', PStr ''carol''),
                             (''email'', PStr ''carol@example.org'')]])
              HTTP_200_OK)"
    using t1 [THEN conjunct2, THEN conjunct1] unfolding f by (simp add: p)
  show ?thesis
    by (intro conjI k0 v0 l0 r0 v1 l1)
qed

section \<open>list\<close>

text \<open>
  Claim C5. For a GET of \<^verbatim>\<open>list\<close>, the response body is exactly the many-item
  serialization, by the view set's user serializer, of what
  \<^verbatim>\<open>Friend.objects.friends(user=request.user)\<close> returned: one item per friend, in the
  library's order, each the serializer's output for that friend, with status 200. The
  view makes these two external calls and no other.
\<close>

theorem list_serializes_friends:
  assumes "Friend_friends B (db s) (user request) = Inr fs"
      and "many (serializer_class self) fs = Inr body"
  shows "list self B request s =
           (Inr (Response body HTTP_200_OK),
            s\<lparr>calls := calls s @ [(Call_friends (user request), Returned),
                                   (Call_serialize_users fs, Returned)],
              self_queryset := Some (Users fs),
              self_http_method_names := [''get'', ''head'', ''options'']\<rparr>)
       \<and> (\<exists>ds. body = PList ds \<and> length ds = length fs
                \<and> map (serializer_class self) fs = map Inr ds)"
proof -
  from assms(2) obtain ds where ds: "serialize_many (serializer_class self) fs = Inr ds"
    and body: "body = PList ds"
    by (auto simp: many_def split: sum.splits)
  from ds have items: "map (serializer_class self) fs = map Inr ds"
    by (rule serialize_many_items)
  then have "length fs = length ds"
    by (rule map_eq_imp_length_eq)
  with list_run [OF assms(1) items] body items show ?thesis
    by simp
qed

text \<open>Alice's friends are Carol alone.\<close>

theorem list_serializes_friends_witness:
  "Friend_friends mem_backend (db state0) (user alice_gets) = Inr [carol]
   \<and> many (serializer_class viewset_default) [carol] =
       Inr (PList [PDict [(''pk'', PInt 3), (''username'', PStr ''carol''),
                          (''email'', PStr ''carol@example.org'')]])
   \<and> list viewset_default mem_backend alice_gets state0 =
       (Inr (Response
               (PList [PDict [(''pk'', PInt 3), (''username'', PStr ''carol''),
                              (''email'', PStr ''carol@example.org'')]])
               HTTP_200_OK),
        state0\<lparr>calls := [(Call_friends alice, Returned), (Call_serialize_users [carol], Returned)],
               self_queryset := Some (Users [carol]),
               self_http_method_names := [''get'', ''head'', ''options'']\<rparr>)"
proof -
  have h1: "Friend_friends mem_backend (db state0) (user alice_gets) = Inr [carol]"
    by (simp add: mem_defs)
  have h2: "many (serializer_class viewset_default) [carol] =
       Inr (PList [PDict [(''pk'', PInt 3), (''username'', PStr ''carol''),
                          (''email'', PStr ''carol@example.org'')]])"
    by (simp add: many_def mem_defs)
  have u: "user alice_gets = alice" "calls state0 = []"
    by (simp_all add: mem_defs)
  show ?thesis
    using h1 h2 list_serializes_friends [OF h1 h2] unfolding u by simp
qed

section \<open>remove_friend\<close>

text \<open>
  Claim C6. When the POST data of \<^verbatim>\<open>remove_friend\<close> resolves to a user, the response is
  HTTP 204 with the message "Friend deleted." exactly when
  \<^verbatim>\<open>Friend.objects.remove_friend(request.user, to_user)\<close> returns a true value, and HTTP
  400 with the message "Friend not found." otherwise.
\<close>

theorem remove_friend_status:
  assumes "get_User_or_404 B (db s) (user_data (data request) True) = Inr recipient"
      and "Friend_remove_friend B (db s) (user request) recipient = (Inr removed, db')"
  shows "remove_friend self B request s =
           (Inr (if removed
                 then Response (PDict [(''message'', PStr ''Friend deleted.'')]) HTTP_204_NO_CONTENT
                 else Response (PDict [(''message'', PStr ''Friend not found.'')]) HTTP_400_BAD_REQUEST),
            s\<lparr>db := db',
              calls := calls s @ [(Call_get_User (user_data (data request) True), Returned),
                                   (Call_remove_friend (user request) recipient, Returned)]\<rparr>)
       \<and> (fst (remove_friend self B request s) =
            Inr (Response (PDict [(''message'', PStr ''Friend deleted.'')]) HTTP_204_NO_CONTENT))
          = removed"
  using assms by (simp add: remove_friend_def get_user_from_friend_data_def action_defs)

text \<open>Alice removes Carol, her friend, by id; then Bob, who is not her friend.\<close>

theorem remove_friend_status_witness:
  "fst (remove_friend viewset_default mem_backend (alice_removes 3) state0) =
     Inr (Response (PDict [(''message'', PStr ''Friend deleted.'')]) HTTP_204_NO_CONTENT)
   \<and> db (snd (remove_friend viewset_default mem_backend (alice_removes 3) state0)) =
       db0\<lparr>friendships := []\<rparr>
   \<and> remove_friend viewset_default mem_backend (alice_removes 2) state0 =
       (Inr (Response (PDict [(''message'', PStr ''Friend not found.'')]) HTTP_400_BAD_REQUEST),
        state0\<lparr>calls := [(Call_get_User [(''id'', PInt 2)], Returned),
                          (Call_remove_friend alice bob, Returned)]\<rparr>)"
proof -
  have c1: "get_User_or_404 mem_backend (db state0) (user_data (data (alice_removes 3)) True) = Inr carol"
    by (simp add: mem_defs)
  have c2: "Friend_remove_friend mem_backend (db state0) (user (alice_removes 3)) carol
              = (Inr True, db0\<lparr>friendships := []\<rparr>)"
    by (simp add: mem_defs)
  have b1: "get_User_or_404 mem_backend (db state0) (user_data (data (alice_removes 2)) True) = Inr bob"
    by (simp add: mem_defs)
  have b2: "Friend_remove_friend mem_backend (db state0) (user (alice_removes 2)) bob
              = (Inr False, db0)"
    by (simp add: mem_defs)
  have u: "user_data (data (alice_removes 2)) True = [(''id'', PInt 2)]"
          "user (alice_removes 2) = alice" "calls state0 = []" "db state0 = db0"
    by (simp_all add: mem_defs)
  have same: "state0\<lparr>db := db0, calls := cs\<rparr> = state0\<lparr>calls := cs\<rparr>" for cs
    by (simp add: state0_def)
  show ?thesis
    using remove_friend_status [OF c1 c2, of viewset_default]
      remove_friend_status [OF b1 b2, of viewset_default]
    unfolding u by (simp add: same)
qed

section \<open>accept_request and reject_request\<close>

text \<open>
  Claim C8. When the \<^verbatim>\<open>id\<close> of a POST to \<^verbatim>\<open>accept_request\<close> or \<^verbatim>\<open>reject_request\<close>
  matches a friendship request whose \<^verbatim>\<open>to_user\<close> is not the requesting user, the view
  returns HTTP 400 with the message "Request for current user not found." and calls no
  lifecycle method: the lookup is its only external call and the database is unchanged.
  When \<^verbatim>\<open>to_user\<close> is the requesting user, the view calls \<^verbatim>\<open>accept()\<close> (respectively
  \<^verbatim>\<open>reject()\<close>) on that request and, when the call returns, answers HTTP 201. A 201
  response therefore implies that \<^verbatim>\<open>to_user\<close> is the requesting user.
\<close>

theorem accept_reject_only_for_recipient:
  assumes "get_FriendshipRequest_or_404 B (db s) [(''pk'', get_default (data request) ''id'' PNone)]
             = Inr friendship_request"
  shows "(\<not> user_eq (to_user friendship_request) (user request) \<longrightarrow>
            accept_request self B request s =
              (Inr (Response (PDict [(''message'', PStr ''Request for current user not found.'')])
                      HTTP_400_BAD_REQUEST),
               s\<lparr>calls := calls s @
                    [(Call_get_FriendshipRequest [(''pk'', get_default (data request) ''id'' PNone)],
                      Returned)]\<rparr>)
          \<and> reject_request self B request s =
              (Inr (Response (PDict [(''message'', PStr ''Request for current user not found.'')])
                      HTTP_400_BAD_REQUEST),
               s\<lparr>calls := calls s @
                    [(Call_get_FriendshipRequest [(''pk'', get_default (data request) ''id'' PNone)],
                      Returned)]\<rparr>))
       \<and> (user_eq (to_user friendship_request) (user request) \<longrightarrow>
            accept_request self B request s =
              (case FriendshipRequest_accept B (db s) friendship_request of
                 (r, db') \<Rightarrow>
                   (case r of
                      Inl e \<Rightarrow> Inl e
                    | Inr _ \<Rightarrow>
                        Inr (Response
                               (PDict [(''message'', PStr ''Request accepted, user added to friends.'')])
                               HTTP_201_CREATED),
                    s\<lparr>db := db',
                      calls := calls s @
                        [(Call_get_FriendshipRequest
                            [(''pk'', get_default (data request) ''id'' PNone)], Returned),
                         (Call_accept friendship_request, outcome_of r)]\<rparr>))
          \<and> reject_request self B request s =
              (case FriendshipRequest_reject B (db s) friendship_request of
                 (r, db') \<Rightarrow>
                   (case r of
                      Inl e \<Rightarrow> Inl e
                    | Inr _ \<Rightarrow>
                        Inr (Response
                               (PDict [(''message'',
                                        PStr ''Request rejected, user NOT added to friends.'')])
                               HTTP_201_CREATED),
                    s\<lparr>db := db',
                      calls := calls s @
                        [(Call_get_FriendshipRequest
                            [(''pk'', get_default (data request) ''id'' PNone)], Returned),
                         (Call_reject friendship_request, outcome_of r)]\<rparr>)))
       \<and> ((\<exists>body. fst (accept_request self B request s) = Inr (Response body HTTP_201_CREATED)) \<longrightarrow>
            user_eq (to_user friendship_request) (user request))
       \<and> ((\<exists>body. fst (reject_request self B request s) = Inr (Response body HTTP_201_CREATED)) \<longrightarrow>
            user_eq (to_user friendship_request) (user request))"
  using assms
  by (auto simp: accept_request_def reject_request_def action_defs split: sum.splits prod.splits)

text \<open>
  Alice answers request 2, which Carol sent to Bob: 400 for both actions, nothing but
  the lookup in the log, the database untouched. Alice accepts request 1, which Bob sent
  to her: 201, and the store holds the new friendship.
\<close>

theorem accept_reject_only_for_recipient_witness:
  "accept_request viewset_default mem_backend (alice_answers 2) state0 =
     (Inr (Response (PDict [(''message'', PStr ''Request for current user not found.'')])
             HTTP_400_BAD_REQUEST),
      state0\<lparr>calls := [(Call_get_FriendshipRequest [(''pk'', PInt 2)], Returned)]\<rparr>)
   \<and> reject_request viewset_default mem_backend (alice_answers 2) state0 =
     (Inr (Response (PDict [(''message'', PStr ''Request for current user not found.'')])
             HTTP_400_BAD_REQUEST),
      state0\<lparr>calls := [(Call_get_FriendshipRequest [(''pk'', PInt 2)], Returned)]\<rparr>)
   \<and> accept_request viewset_default mem_backend (alice_answers 1) state0 =
     (Inr (Response (PDict [(''message'', PStr ''Request accepted, user added to friends.'')])
             HTTP_201_CREATED),
      state0\<lparr>db := db0\<lparr>friendships := [(1, 3), (3, 1), (2, 1), (1, 2)],
                         pending := [carol_asks_bob]\<rparr>,
             calls := [(Call_get_FriendshipRequest [(''pk'', PInt 1)], Returned),
                       (Call_accept bob_asks_alice, Returned)]\<rparr>)"
proof -
  have h2: "get_FriendshipRequest_or_404 mem_backend (db state0)
              [(''pk'', get_default (data (alice_answers 2)) ''id'' PNone)] = Inr carol_asks_bob"
    by (simp add: mem_defs)
  have n2: "\<not> user_eq (to_user carol_asks_bob) (user (alice_answers 2))"
    by (simp add: user_eq_def mem_defs)
  have h1: "get_FriendshipRequest_or_404 mem_backend (db state0)
              [(''pk'', get_default (data (alice_answers 1)) ''id'' PNone)] = Inr bob_asks_alice"
    by (simp add: mem_defs)
  have e1: "user_eq (to_user bob_asks_alice) (user (alice_answers 1))"
    by (simp add: user_eq_def mem_defs)
  have a1: "FriendshipRequest_accept mem_backend (db state0) bob_asks_alice =
              (Inr (), db0\<lparr>friendships := [(1, 3), (3, 1), (2, 1), (1, 2)],
                            pending := [carol_asks_bob]\<rparr>)"
    by (simp add: mem_defs)
  have u: "get_default (data (alice_answers 2)) ''id'' PNone = PInt 2"
          "get_default (data (alice_answers 1)) ''id'' PNone = PInt 1"
          "calls state0 = []"
    by (simp_all add: mem_defs)
  show ?thesis
    using accept_reject_only_for_recipient [OF h2, of viewset_default]
      accept_reject_only_for_recipient [OF h1, of viewset_default] n2 e1 a1
    unfolding u by (simp add: outcome_of_def)
qed

section \<open>Lookup by id\<close>

lemma user_data_agree:
  assumes "\<forall>k. k \<noteq> ''id'' \<longrightarrow> map_of d1 k = map_of d2 k"
  shows "user_data d1 False = user_data d2 False"
proof -
  have "map_of d1 ''username'' = map_of d2 ''username''"
       "map_of d1 ''to_user'' = map_of d2 ''to_user''"
       "map_of d1 ''email'' = map_of d2 ''email''"
    using assms by simp_all
  then show ?thesis
    by (simp add: user_data_def contains_def get_def get_default_def)
qed

lemma user_data_id: "map_of (user_data d True) ''id'' = map_of d ''id''"
  by (cases "map_of d ''id''")
     (simp_all add: user_data_def contains_def get_def get_default_def setitem_def update_conv')

text \<open>
  Claim C9. \<^verbatim>\<open>add_friend\<close> never resolves its target by id: two payloads that agree on
  every key but \<^verbatim>\<open>id\<close> give the same lookup arguments, hence the same resolved user or
  the same 404, and the same run of the whole view. \<^verbatim>\<open>remove_friend\<close> honours the key:
  its lookup arguments carry the payload's \<^verbatim>\<open>id\<close>, and they are what its first external
  call, the user lookup, receives.
\<close>

theorem add_friend_ignores_id:
  assumes "\<forall>k. k \<noteq> ''id'' \<longrightarrow> map_of d1 k = map_of d2 k"
  shows "user_data d1 False = user_data d2 False
       \<and> get_user_from_friend_data B d1 False s = get_user_from_friend_data B d2 False s
       \<and> add_friend self B (request\<lparr>data := d1\<rparr>) s = add_friend self B (request\<lparr>data := d2\<rparr>) s
       \<and> map_of (user_data d1 True) ''id'' = map_of d1 ''id''
       \<and> take 1 (new_calls s (snd (remove_friend self B (request\<lparr>data := d1\<rparr>) s))) =
           [(Call_get_User (user_data d1 True),
             outcome_of (get_User_or_404 B (db s) (user_data d1 True)))]"
proof -
  have ud: "user_data d1 False = user_data d2 False"
    using assms by (rule user_data_agree)
  have msg: "get_default d1 ''message'' (PStr '''') = get_default d2 ''message'' (PStr '''')"
    using assms by (simp add: get_default_def)
  have rm: "take 1 (new_calls s (snd (remove_friend self B (request\<lparr>data := d1\<rparr>) s))) =
           [(Call_get_User (user_data d1 True),
             outcome_of (get_User_or_404 B (db s) (user_data d1 True)))]"
    by (auto simp: remove_friend_def get_user_from_friend_data_def and_then_def query_def
          command_def return_def Let_def new_calls_def split: sum.splits prod.splits)
  show ?thesis
    using ud msg rm
    by (simp add: add_friend_def get_user_from_friend_data_def user_data_id)
qed

text \<open>
  Alice asks Bob by name, once with the id of Carol in the payload and once without:
  both runs resolve Bob. The same id in a \<^verbatim>\<open>remove_friend\<close> payload reaches the lookup.
\<close>

theorem add_friend_ignores_id_witness:
  "user_data [(''username'', PStr ''bob''), (''id'', PInt 3)] False = [(''username'', PStr ''bob'')]
   \<and> user_data [(''username'', PStr ''bob'')] False = [(''username'', PStr ''bob'')]
   \<and> add_friend viewset_default mem_backend
        (alice_gets\<lparr>data := [(''username'', PStr ''bob''), (''id'', PInt 3)]\<rparr>) state0 =
       add_friend viewset_default mem_backend
        (alice_gets\<lparr>data := [(''username'', PStr ''bob'')]\<rparr>) state0
   \<and> map_of (user_data [(''username'', PStr ''bob''), (''id'', PInt 3)] True) ''id'' = Some (PInt 3)
   \<and> take 1 (new_calls state0 (snd (remove_friend viewset_default mem_backend
        (alice_gets\<lparr>data := [(''username'', PStr ''bob''), (''id'', PInt 3)]\<rparr>) state0))) =
       [(Call_get_User [(''username'', PStr ''bob''), (''id'', PInt 3)],
         Raised (Http404 ''No User matches the given query.''))]"
proof -
  have h: "\<forall>k. k \<noteq> ''id'' \<longrightarrow>
             map_of [(''username'', PStr ''bob''), (''id'', PInt 3)] k =
             map_of [(''username'', PStr ''bob'')] k"
    by simp
  have u: "user_data [(''username'', PStr ''bob'')] False = [(''username'', PStr ''bob'')]"
          "user_data [(''username'', PStr ''bob''), (''id'', PInt 3)] True =
             [(''username'', PStr ''bob''), (''id'', PInt 3)]"
    by (simp_all add: mem_defs)
  have o: "outcome_of (get_User_or_404 mem_backend (db state0)
             [(''username'', PStr ''bob''), (''id'', PInt 3)]) =
           Raised (Http404 ''No User matches the given query.'')"
    by (simp add: outcome_of_def mem_defs)
  show ?thesis
    using add_friend_ignores_id [OF h, of mem_backend state0 viewset_default alice_gets]
    unfolding u o by simp
qed

end
